theory Spec2Isabelle
  imports Complex_Main "HOL-Library.Multiset"
begin

section \<open>Invoice generator: the embedding of \<open>generate_invoice\<close> (src/app.py)\<close>

text \<open>
  The only function of the program is \<open>generate_invoice\<close>. It draws a border, a header
  block and a table on a PDF canvas and returns the buffer. The model keeps

  \<^item> the numbers as Python has them: a quantity is a Python \<open>int\<close> (\<open>int\<close>); a price, the
    tax percentage and every amount computed from them is a Python \<open>float\<close>, an IEEE 754
    double (\<open>pyfloat\<close>), and \<open>*\<close>, \<open>+\<close> and \<open>/\<close> round each result to the nearest
    double;
  \<^item> the canvas as the list of drawing operations issued on it, in order;
  \<^item> the wall clock as explicit state: every \<open>datetime.now()\<close> consumes one reading.

  The program text is written once, over a record of the number operations it uses
  (\<open>arithmetic\<close>). \<open>python_floats\<close> is the arithmetic of the program. \<open>exact_rationals\<close>
  is the arithmetic without rounding, for the one property that is stated of it.
\<close>

subsection \<open>Numbers as text\<close>

definition digit_char :: "nat \<Rightarrow> char" where
  "digit_char d = ''0123456789'' ! (d mod 10)"

text \<open>\<open>str(n)\<close> for a natural number: its decimal digits, most significant first.\<close>

fun str_nat :: "nat \<Rightarrow> string" where
  "str_nat n = (if n < 10 then [digit_char n] else str_nat (n div 10) @ [digit_char n])"

declare str_nat.simps [simp del]

text \<open>\<open>str(qty)\<close> for a Python \<open>int\<close>.\<close>

definition str_int :: "int \<Rightarrow> string" where
  "str_int i = (if i < 0 then ''-'' @ str_nat (nat (- i)) else str_nat (nat i))"

text \<open>Rounding to the nearest integer, ties to the even neighbour.\<close>

definition round_half_even :: "rat \<Rightarrow> int" where
  "round_half_even x =
     (let f = \<lfloor>x\<rfloor>; d = x - of_int f
      in if d < 1 / 2 then f
         else if 1 / 2 < d then f + 1
         else if even f then f else f + 1)"

subsection \<open>Python floats\<close>

text \<open>
  A float is a finite double, given by its sign bit (\<open>True\<close> for minus) and its magnitude,
  or an infinity with its sign, or not-a-number. The two zeros are \<open>Num False 0\<close> and
  \<open>Num True 0\<close>.
\<close>

datatype pyfloat = Num bool rat | Infinite bool | NaN

text \<open>The value of a finite float.\<close>

fun fval :: "pyfloat \<Rightarrow> rat" where
  "fval (Num s m) = (if s then - m else m)"
| "fval (Infinite s) = 0"
| "fval NaN = 0"

text \<open>The number of binary digits of a natural number.\<close>

fun bit_length :: "nat \<Rightarrow> nat" where
  "bit_length n = (if n = 0 then 0 else Suc (bit_length (n div 2)))"

declare bit_length.simps [simp del]

text \<open>
  The binary exponent of a positive rational \<open>m\<close>: the \<open>e\<close> with
  \<open>2 ^ e \<le> m < 2 ^ (e + 1)\<close>.
\<close>

definition exponent :: "rat \<Rightarrow> int" where
  "exponent m =
     (if 1 \<le> m then int (bit_length (nat \<lfloor>m\<rfloor>)) - 1
      else - int (bit_length (nat (\<lceil>1 / m\<rceil> - 1))))"

text \<open>
  The spacing of the doubles around \<open>m\<close>: a double has 53 significant bits, and below
  \<open>2 ^ -1022\<close> the spacing stays that of the smallest normal numbers.
\<close>

definition quantum :: "rat \<Rightarrow> rat" where
  "quantum m = 2 powi (max (exponent m) (- 1022) - 52)"

text \<open>The magnitude \<open>m\<close> rounded to the nearest multiple of its quantum, ties to even.\<close>

definition round_mag :: "rat \<Rightarrow> rat" where
  "round_mag m = (if m = 0 then 0 else of_int (round_half_even (m / quantum m)) * quantum m)"

text \<open>
  The double nearest to the exact result with sign \<open>s\<close> and magnitude \<open>m\<close>; a result
  that rounds to \<open>2 ^ 1024\<close> or more overflows to an infinity.
\<close>

definition mk_float :: "bool \<Rightarrow> rat \<Rightarrow> pyfloat" where
  "mk_float s m = (let r = round_mag m in if 2 ^ 1024 \<le> r then Infinite s else Num s r)"

text \<open>
  \<open>float(qty)\<close>, the conversion that \<open>qty * price\<close> applies to the \<open>int\<close> operand. For a
  quantity that does not fit a double (\<open>fits_double\<close> below) Python raises
  \<open>OverflowError\<close> here; the model has no branch for that and the properties of the totals
  assume \<open>fits_double\<close>.
\<close>

definition float_of_int :: "int \<Rightarrow> pyfloat" where
  "float_of_int i = mk_float (i < 0) (of_int \<bar>i\<bar>)"

definition fits_double :: "int \<Rightarrow> bool" where
  "fits_double i = (round_mag (of_int \<bar>i\<bar>) < 2 ^ 1024)"

text \<open>\<open>a * b\<close> on floats.\<close>

fun fmul :: "pyfloat \<Rightarrow> pyfloat \<Rightarrow> pyfloat" where
  "fmul NaN b = NaN"
| "fmul a NaN = NaN"
| "fmul (Infinite s) (Infinite t) = Infinite (s \<noteq> t)"
| "fmul (Infinite s) (Num t n) = (if n = 0 then NaN else Infinite (s \<noteq> t))"
| "fmul (Num s m) (Infinite t) = (if m = 0 then NaN else Infinite (s \<noteq> t))"
| "fmul (Num s m) (Num t n) = mk_float (s \<noteq> t) (m * n)"

text \<open>
  \<open>a + b\<close> on floats. An exact sum of zero is \<open>-0.0\<close> only when both operands are
  \<open>-0.0\<close>.
\<close>

fun fadd :: "pyfloat \<Rightarrow> pyfloat \<Rightarrow> pyfloat" where
  "fadd NaN b = NaN"
| "fadd a NaN = NaN"
| "fadd (Infinite s) (Infinite t) = (if s = t then Infinite s else NaN)"
| "fadd (Infinite s) (Num t n) = Infinite s"
| "fadd (Num s m) (Infinite t) = Infinite t"
| "fadd (Num s m) (Num t n) =
     (let v = fval (Num s m) + fval (Num t n)
      in if v = 0 then Num (s \<and> t) 0 else mk_float (v < 0) \<bar>v\<bar>)"

text \<open>\<open>a / 100\<close> on floats, the only division of the program.\<close>

fun fdiv100 :: "pyfloat \<Rightarrow> pyfloat" where
  "fdiv100 NaN = NaN"
| "fdiv100 (Infinite s) = Infinite s"
| "fdiv100 (Num s m) = mk_float s (m / 100)"

text \<open>
  \<open>f"{x:.2f}"\<close> on a float: the exact value of the double rounded to two decimals, ties
  to even, with the sign bit kept (\<open>-0.00\<close>).
\<close>

fun format_2f :: "pyfloat \<Rightarrow> string" where
  "format_2f NaN = ''nan''"
| "format_2f (Infinite s) = (if s then ''-inf'' else ''inf'')"
| "format_2f (Num s m) =
     (let n = nat (round_half_even (m * 100))
      in (if s then ''-'' else '''') @ str_nat (n div 100) @ ''.''
           @ [digit_char (n div 10), digit_char n])"

declare fmul.simps [simp del] fadd.simps [simp del] fdiv100.simps [simp del]
  format_2f.simps [simp del]

text \<open>
  \<open>str\<close> of a float whose value is a whole number, as in \<open>str(18.0) = '18.0'\<close>. The text
  of an arbitrary float (the shortest decimal that reads back as the same double) belongs
  to the interpreter, so \<open>python_floats\<close> below takes \<open>str\<close> of a float as a parameter;
  \<open>str_whole\<close> is its value on whole numbers below \<open>10 ^ 16\<close> and is used where a
  concrete input is evaluated.
\<close>

fun str_whole :: "pyfloat \<Rightarrow> string" where
  "str_whole NaN = ''nan''"
| "str_whole (Infinite s) = (if s then ''-inf'' else ''inf'')"
| "str_whole (Num s m) = (if s then ''-'' else '''') @ str_nat (nat \<lfloor>m\<rfloor>) @ ''.0''"

declare str_whole.simps [simp del]

text \<open>The comparisons \<open>x >= 0\<close>, \<open>x < 0\<close> and \<open>x <= 100\<close> on floats.\<close>

fun float_ge_0 :: "pyfloat \<Rightarrow> bool" where
  "float_ge_0 NaN = False"
| "float_ge_0 (Infinite s) = (\<not> s)"
| "float_ge_0 (Num s m) = (\<not> s \<or> m = 0)"

fun float_less_0 :: "pyfloat \<Rightarrow> bool" where
  "float_less_0 NaN = False"
| "float_less_0 (Infinite s) = s"
| "float_less_0 (Num s m) = (s \<and> m \<noteq> 0)"

fun float_le_100 :: "pyfloat \<Rightarrow> bool" where
  "float_le_100 NaN = False"
| "float_le_100 (Infinite s) = s"
| "float_le_100 (Num s m) = (s \<or> m \<le> 100)"

text \<open>A float of the model that is a double: its magnitude needs no rounding.\<close>

fun is_double :: "pyfloat \<Rightarrow> bool" where
  "is_double NaN = True"
| "is_double (Infinite s) = True"
| "is_double (Num s m) = (0 \<le> m \<and> m < 2 ^ 1024 \<and> round_mag m = m)"

subsection \<open>The two arithmetics\<close>

text \<open>
  What the program does with numbers: it starts \<open>total_amount\<close> at 0, multiplies a
  quantity by a price, adds, multiplies by the tax percentage, divides by 100, formats
  with \<open>.2f\<close> and takes \<open>str\<close> of the tax percentage.
\<close>

record 'n arithmetic =
  num_zero :: 'n
  num_times_int :: "int \<Rightarrow> 'n \<Rightarrow> 'n"
  num_add :: "'n \<Rightarrow> 'n \<Rightarrow> 'n"
  num_mul :: "'n \<Rightarrow> 'n \<Rightarrow> 'n"
  num_div100 :: "'n \<Rightarrow> 'n"
  num_format_2f :: "'n \<Rightarrow> string"
  num_str :: "'n \<Rightarrow> string"

text \<open>
  The arithmetic of the program. \<open>total_amount\<close> starts as the \<open>int\<close> 0; in a sum or
  product with a float, and under \<open>.2f\<close>, the \<open>int\<close> 0 behaves as the float \<open>0.0\<close>.
\<close>

definition python_floats :: "(pyfloat \<Rightarrow> string) \<Rightarrow> pyfloat arithmetic" where
  "python_floats str_float =
     \<lparr> num_zero = Num False 0,
       num_times_int = (\<lambda>qty price. fmul (float_of_int qty) price),
       num_add = fadd, num_mul = fmul, num_div100 = fdiv100,
       num_format_2f = format_2f, num_str = str_float \<rparr>"

text \<open>\<open>.2f\<close> on an exact rational.\<close>

definition fmt2 :: "rat \<Rightarrow> string" where
  "fmt2 x =
     (let n = nat (round_half_even (\<bar>x\<bar> * 100))
      in (if x < 0 then ''-'' else '''') @ str_nat (n div 100) @ ''.''
           @ [digit_char (n div 10), digit_char n])"

definition str_whole_rat :: "rat \<Rightarrow> string" where
  "str_whole_rat x = str_int \<lfloor>x\<rfloor> @ ''.0''"

text \<open>Exact arithmetic: the same operations without rounding.\<close>

definition exact_rationals :: "(rat \<Rightarrow> string) \<Rightarrow> rat arithmetic" where
  "exact_rationals str_rat =
     \<lparr> num_zero = 0,
       num_times_int = (\<lambda>qty price. of_int qty * price),
       num_add = (+), num_mul = (*), num_div100 = (\<lambda>x. x / 100),
       num_format_2f = fmt2, num_str = str_rat \<rparr>"

subsection \<open>The table: lines 42 to 59\<close>

type_synonym 'n item = "string \<times> int \<times> 'n"
type_synonym row = "string list"

text \<open>\<open>total_price = qty * price\<close>\<close>

fun total_price :: "'n arithmetic \<Rightarrow> 'n item \<Rightarrow> 'n" where
  "total_price A (item_name, qty, price) = num_times_int A qty price"

text \<open>\<open>[item_name, str(qty), f"{price:.2f}", f"{total_price:.2f}"]\<close>\<close>

fun item_row :: "'n arithmetic \<Rightarrow> 'n item \<Rightarrow> row" where
  "item_row A (item_name, qty, price) =
     [item_name, str_int qty, num_format_2f A price,
      num_format_2f A (total_price A (item_name, qty, price))]"

text \<open>
  The loop \<open>for item in items\<close>: it appends one row to \<open>data\<close> and adds the unrounded
  \<open>total_price\<close> to \<open>total_amount\<close>. The state of the loop is the pair of the two.
\<close>

fun item_loop :: "'n arithmetic \<Rightarrow> 'n item list \<Rightarrow> row list \<times> 'n \<Rightarrow> row list \<times> 'n" where
  "item_loop A [] (data, total_amount) = (data, total_amount)"
| "item_loop A (item # items) (data, total_amount) =
     item_loop A items (data @ [item_row A item], num_add A total_amount (total_price A item))"

definition header_row :: "string \<Rightarrow> row" where
  "header_row currency =
     [''Item'', ''Quantity'', ''Unit Price ('' @ currency @ '')'',
      ''Total Price ('' @ currency @ '')'']"

definition subtotal_row :: "'n arithmetic \<Rightarrow> string \<Rightarrow> 'n \<Rightarrow> row" where
  "subtotal_row A currency total_amount =
     ['''', '''', ''Subtotal:'', currency @ '' '' @ num_format_2f A total_amount]"

definition tax_row :: "'n arithmetic \<Rightarrow> string \<Rightarrow> 'n \<Rightarrow> 'n \<Rightarrow> row" where
  "tax_row A currency tax_percentage tax_amount =
     ['''', '''', ''Tax ('' @ num_str A tax_percentage @ ''%):'',
      currency @ '' '' @ num_format_2f A tax_amount]"

definition grand_total_row :: "'n arithmetic \<Rightarrow> string \<Rightarrow> 'n \<Rightarrow> row" where
  "grand_total_row A currency grand_total =
     ['''', '''', ''Grand Total:'', currency @ '' '' @ num_format_2f A grand_total]"

text \<open>The local variables of \<open>generate_invoice\<close> after line 59.\<close>

record 'n invoice_table =
  data :: "row list"
  total_amount :: 'n
  tax_amount :: 'n
  grand_total :: 'n

definition build_table ::
  "'n arithmetic \<Rightarrow> 'n item list \<Rightarrow> string \<Rightarrow> 'n \<Rightarrow> 'n invoice_table" where
  "build_table A items currency tax_percentage =
     (let (data1, total) = item_loop A items ([header_row currency], num_zero A);
          tax = num_div100 A (num_mul A total tax_percentage);
          grand = num_add A total tax
      in \<lparr> data = data1 @ [subtotal_row A currency total,
                             tax_row A currency tax_percentage tax,
                             grand_total_row A currency grand],
           total_amount = total, tax_amount = tax, grand_total = grand \<rparr>)"

subsection \<open>What the form lets through\<close>

text \<open>
  The widgets of the form bound what reaches \<open>generate_invoice\<close>: a quantity has
  \<open>min_value=1\<close>, a price \<open>min_value=0.0\<close>, the tax percentage lies in \<open>[0, 100]\<close> and the
  number of items in \<open>[1, 10]\<close>. \<open>generate_invoice\<close> itself checks none of these.
\<close>

fun valid_item :: "pyfloat item \<Rightarrow> bool" where
  "valid_item (item_name, qty, price) =
     (1 \<le> qty \<and> fits_double qty \<and> is_double price \<and> float_ge_0 price)"

definition valid_items :: "pyfloat item list \<Rightarrow> bool" where
  "valid_items items = list_all valid_item items"

definition valid_tax :: "pyfloat \<Rightarrow> bool" where
  "valid_tax tax_percentage =
     (is_double tax_percentage \<and> float_ge_0 tax_percentage \<and> float_le_100 tax_percentage)"

subsection \<open>The clock\<close>

text \<open>
  \<open>datetime.now()\<close> reads the wall clock. The clock is state: \<open>readings\<close> is what the
  successive reads return and \<open>reads\<close> counts the reads made so far.
\<close>

record datetime =
  year :: nat
  month :: nat
  day :: nat
  hour :: nat
  minute :: nat
  second :: nat

record clock =
  readings :: "nat \<Rightarrow> datetime"
  reads :: nat

definition now :: "clock \<Rightarrow> datetime \<times> clock" where
  "now c = (readings c (reads c), c\<lparr>reads := Suc (reads c)\<rparr>)"

text \<open>A decimal number padded with zeros on the left to at least \<open>w\<close> digits.\<close>

definition zero_pad :: "nat \<Rightarrow> nat \<Rightarrow> string" where
  "zero_pad w n = replicate (w - length (str_nat n)) (CHR ''0'') @ str_nat n"

text \<open>\<open>strftime('%Y-%m-%d')\<close> and \<open>strftime('%H:%M:%S')\<close>\<close>

definition strftime_date :: "datetime \<Rightarrow> string" where
  "strftime_date t = zero_pad 4 (year t) @ ''-'' @ zero_pad 2 (month t) @ ''-'' @ zero_pad 2 (day t)"

definition strftime_time :: "datetime \<Rightarrow> string" where
  "strftime_time t =
     zero_pad 2 (hour t) @ '':'' @ zero_pad 2 (minute t) @ '':'' @ zero_pad 2 (second t)"

subsection \<open>The canvas\<close>

text \<open>
  A cell position of a table style is (column, row); negative indices count from the
  end, as in the source.
\<close>

type_synonym cell = "int \<times> int"

datatype style_cmd =
    BACKGROUND cell cell string
  | TEXTCOLOR cell cell string
  | ALIGN cell cell string
  | FONTNAME cell cell string
  | BOTTOMPADDING cell cell int
  | GRID cell cell int string
  | LINEBELOW cell cell int string
  | LINEABOVE cell cell int string

record table =
  cells :: "row list"
  colWidths :: "int list"
  style :: "style_cmd list"

datatype draw_op =
    SetStrokeColor string
  | SetLineWidth int
  | Rect rat rat rat rat
  | DrawImage string int int int int
  | SetFont string int
  | DrawString int int string
  | WrapOn table int int
  | DrawOn table int int
  | Save

text \<open>
  The errors of the specification. The source has no \<open>raise\<close> and no check of its
  arguments, so no equation of \<open>generate_invoice\<close> below returns one of them; they are
  declared to state that.
\<close>

datatype error = InvalidInvoiceInput | LayoutOverflow | DocumentAlreadyFinalized

text \<open>The page size \<open>A4\<close> of reportlab: 210 mm by 297 mm, in points of 1/72 inch.\<close>

definition A4 :: "rat \<times> rat" where
  "A4 = (210 * 72 / (254 / 10), 297 * 72 / (254 / 10))"

definition left_margin :: int where "left_margin = 50"
definition top_margin :: int where "top_margin = 600"
definition bottom_margin :: int where "bottom_margin = 50"

definition table_style :: "style_cmd list" where
  "table_style =
     [BACKGROUND (0, 0) (- 1, 0) ''#4CAF50'',
      TEXTCOLOR (0, 0) (- 1, 0) ''whitesmoke'',
      ALIGN (0, 0) (- 1, - 1) ''CENTER'',
      FONTNAME (0, 0) (- 1, 0) ''Helvetica-Bold'',
      BOTTOMPADDING (0, 0) (- 1, 0) 12,
      BACKGROUND (0, 1) (- 1, - 3) ''#F0F0F0'',
      GRID (0, 0) (- 1, - 1) 1 ''black'',
      LINEBELOW (0, 0) (- 1, 0) 1 ''black'',
      LINEABOVE (0, - 3) (- 1, - 3) 1 ''black'',
      LINEABOVE (0, - 1) (- 1, - 1) 1 ''black'']"

text \<open>
  Lines 22 to 28: the border, and the logo when \<open>logo_path\<close> is truthy. Reading the image
  file is reportlab's work; its failure on an unreadable file is outside the model.
\<close>

definition draw_border :: "draw_op list" where
  "draw_border =
     [SetStrokeColor ''black'', SetLineWidth 2,
      Rect (of_int (left_margin - 10)) (of_int (bottom_margin - 10))
           (fst A4 - of_int left_margin - 50) (of_int (top_margin - bottom_margin + 20))]"

definition draw_logo :: "string option \<Rightarrow> draw_op list" where
  "draw_logo logo_path =
     (case logo_path of
        None \<Rightarrow> []
      | Some path \<Rightarrow>
          if path = [] then [] else [DrawImage path left_margin (top_margin - 50) 100 50])"

text \<open>Lines 62 to 78: the table is drawn at a height that depends on the number of items.\<close>

definition table_y :: "'n item list \<Rightarrow> int" where
  "table_y items = top_margin - 250 - int (length items) * 20"

definition draw_table :: "row list \<Rightarrow> 'n item list \<Rightarrow> draw_op list" where
  "draw_table rows items =
     (let t = \<lparr> cells = rows, colWidths = [200, 80, 100, 100], style = table_style \<rparr>
      in [WrapOn t left_margin (top_margin - 250), DrawOn t left_margin (table_y items)])"

definition draw_footer :: "draw_op list" where
  "draw_footer =
     [SetFont ''Helvetica'' 10,
      DrawString left_margin (bottom_margin + 20) ''Thank you for your business!'',
      DrawString left_margin bottom_margin ''Terms & Conditions: Payment due within 30 days.'']"

text \<open>
  \<open>generate_invoice\<close>: the operations on the canvas in the order of the source, the clock
  read once for the date (line 38) and once more for the time (line 39). The result is the
  saved buffer, that is the list of operations, and the clock after the call. Its first
  argument is the arithmetic; the program is \<open>generate_invoice (python_floats str)\<close>.
\<close>

definition generate_invoice ::
  "'n arithmetic \<Rightarrow> string \<Rightarrow> string \<Rightarrow> string \<Rightarrow> 'n item list \<Rightarrow> string \<Rightarrow> 'n
     \<Rightarrow> string option \<Rightarrow> clock \<Rightarrow> (error + draw_op list) \<times> clock" where
  "generate_invoice A company_name customer_name customer_email items currency
       tax_percentage logo_path c0 =
     (let pdf1 = draw_border @ draw_logo logo_path
                 @ [SetFont ''Helvetica-Bold'' 18,
                    DrawString left_margin top_margin (''Invoice - '' @ company_name),
                    SetFont ''Helvetica'' 12,
                    DrawString left_margin (top_margin - 60) (''Customer: '' @ customer_name),
                    DrawString left_margin (top_margin - 80) (''Email: '' @ customer_email)];
          (t1, c1) = now c0;
          pdf2 = pdf1 @ [DrawString (left_margin + 300) top_margin
                           (''Invoice Date: '' @ strftime_date t1)];
          (t2, c2) = now c1;
          pdf3 = pdf2 @ [DrawString (left_margin + 300) (top_margin - 20)
                           (''Purchase Time: '' @ strftime_time t2)];
          tbl = build_table A items currency tax_percentage;
          pdf4 = pdf3 @ draw_table (data tbl) items @ draw_footer @ [Save]
      in (Inr pdf4, c2))"

subsection \<open>Reading the result\<close>

text \<open>The tables drawn on a canvas, in drawing order.\<close>

fun drawn_tables :: "draw_op list \<Rightarrow> (table \<times> int \<times> int) list" where
  "drawn_tables [] = []"
| "drawn_tables (DrawOn t x y # ops) = (t, x, y) # drawn_tables ops"
| "drawn_tables (other # ops) = drawn_tables ops"

text \<open>The strings drawn on a canvas, with their positions.\<close>

fun drawn_strings :: "draw_op list \<Rightarrow> (int \<times> int \<times> string) list" where
  "drawn_strings [] = []"
| "drawn_strings (DrawString x y s # ops) = (x, y, s) # drawn_strings ops"
| "drawn_strings (other # ops) = drawn_strings ops"

text \<open>The buffer of a call that returned one; the empty canvas otherwise.\<close>

definition document :: "(error + draw_op list) \<times> clock \<Rightarrow> draw_op list" where
  "document r = (case fst r of Inl e \<Rightarrow> [] | Inr pdf \<Rightarrow> pdf)"

text \<open>The item rows of a table of \<open>n\<close> items: the rows after the header row.\<close>

definition item_rows :: "nat \<Rightarrow> row list \<Rightarrow> row list" where
  "item_rows n rows = take n (drop 1 rows)"


subsection \<open>Concrete inputs\<close>

text \<open>The example of the specification, as floats and as exact rationals.\<close>

definition widget_gadget :: "pyfloat item list" where
  "widget_gadget = [(''Widget'', 2, Num False 50), (''Gadget'', 1, Num False 150)]"

definition widget_gadget_exact :: "rat item list" where
  "widget_gadget_exact = [(''Widget'', 2, 50), (''Gadget'', 1, 150)]"

definition gadget_widget_exact :: "rat item list" where
  "gadget_widget_exact = [(''Gadget'', 1, 150), (''Widget'', 2, 50)]"

text \<open>One line at 1.25 and one line at 0.25; the tax percentage 18.0.\<close>

definition one_bolt :: "pyfloat item list" where
  "one_bolt = [(''Bolt'', 1, Num False (5 / 4))]"

definition one_clip :: "pyfloat item list" where
  "one_clip = [(''Clip'', 1, Num False (1 / 4))]"

text \<open>
  Two lines at 0.004, that is at the double nearest to it: each line total rounds to
  nothing, their sum does not.
\<close>

definition two_small_lines :: "pyfloat item list" where
  "two_small_lines =
     [(''Washer'', 1, Num False (1152921504606847 / 288230376151711744)),
      (''Spacer'', 1, Num False (1152921504606847 / 288230376151711744))]"

text \<open>A line with a negative quantity, and sixteen lines.\<close>

definition refund :: "pyfloat item list" where
  "refund = [(''Refund'', - 1, Num False 10)]"


text \<open>
  A clock that is read across midnight: the first reading is the last second of 2024,
  every later one the first second of 2025. And a clock that stands still.
\<close>

definition last_second :: datetime where
  "last_second = \<lparr> year = 2024, month = 12, day = 31, hour = 23, minute = 59, second = 59 \<rparr>"

definition first_second :: datetime where
  "first_second = \<lparr> year = 2025, month = 1, day = 1, hour = 0, minute = 0, second = 0 \<rparr>"

definition midnight_clock :: clock where
  "midnight_clock =
     \<lparr> readings = (\<lambda>n. if n = 0 then last_second else first_second), reads = 0 \<rparr>"

definition frozen_clock :: clock where
  "frozen_clock = \<lparr> readings = (\<lambda>n. first_second), reads = 0 \<rparr>"

definition frozen_clock_later :: clock where
  "frozen_clock_later = \<lparr> readings = (\<lambda>n. first_second), reads = 7 \<rparr>"

section \<open>Properties\<close>

subsection \<open>The item loop\<close>

lemma item_loop_eq:
  "item_loop A items (d, t) =
     (d @ map (item_row A) items, foldl (num_add A) t (map (total_price A) items))"
  by (induction items arbitrary: d t) simp_all

lemma build_table_data:
  "data (build_table A items cur tax) =
     header_row cur # map (item_row A) items @
       [subtotal_row A cur (total_amount (build_table A items cur tax)),
        tax_row A cur tax (tax_amount (build_table A items cur tax)),
        grand_total_row A cur (grand_total (build_table A items cur tax))]"
  by (simp add: build_table_def item_loop_eq Let_def)

lemma build_table_total:
  "total_amount (build_table A items cur tax) =
     foldl (num_add A) (num_zero A) (map (total_price A) items)"
  by (simp add: build_table_def item_loop_eq Let_def)

lemma build_table_tax:
  "tax_amount (build_table A items cur tax) =
     num_div100 A (num_mul A (total_amount (build_table A items cur tax)) tax)"
  by (simp add: build_table_def item_loop_eq Let_def)

lemma build_table_grand:
  "grand_total (build_table A items cur tax) =
     num_add A (total_amount (build_table A items cur tax))
       (tax_amount (build_table A items cur tax))"
  by (simp add: build_table_def item_loop_eq Let_def)

lemma item_rows_data:
  "item_rows (length items) (data (build_table A items cur tax)) = map (item_row A) items"
  by (simp add: item_rows_def build_table_data)

lemma summary_rows_data:
  "drop (Suc (length items)) (data (build_table A items cur tax)) =
     [subtotal_row A cur (total_amount (build_table A items cur tax)),
      tax_row A cur tax (tax_amount (build_table A items cur tax)),
      grand_total_row A cur (grand_total (build_table A items cur tax))]"
  by (simp add: build_table_data)

text \<open>In exact arithmetic the loop computes the sum of the line totals.\<close>

lemma foldl_add_sum_list: "foldl (+) a xs = a + sum_list (xs :: rat list)"
  by (induction xs arbitrary: a) (simp_all add: add.assoc)

lemma exact_total:
  "total_amount (build_table (exact_rationals sr) items cur tax) =
     sum_list (map (total_price (exact_rationals sr)) items)"
  by (simp add: build_table_total exact_rationals_def foldl_add_sum_list)

lemma exact_tax:
  "tax_amount (build_table (exact_rationals sr) items cur tax) =
     total_amount (build_table (exact_rationals sr) items cur tax) * tax / 100"
  by (simp add: build_table_tax exact_rationals_def)

lemma exact_grand:
  "grand_total (build_table (exact_rationals sr) items cur tax) =
     total_amount (build_table (exact_rationals sr) items cur tax)
       + tax_amount (build_table (exact_rationals sr) items cur tax)"
  by (simp add: build_table_grand exact_rationals_def)

subsection \<open>Evaluating the text of a number\<close>

lemma str_nat_numeral:
  "str_nat (numeral k) =
     (if (numeral k :: nat) < 10 then [digit_char (numeral k)]
      else str_nat (numeral k div 10) @ [digit_char (numeral k)])"
  by (rule str_nat.simps)

lemma str_nat_0: "str_nat 0 = ''0''"
  by (simp add: str_nat.simps digit_char_def)

lemma str_nat_1: "str_nat (Suc 0) = ''1''"
  by (simp add: str_nat.simps digit_char_def)

lemma floor_rat_numeral_div:
  "\<lfloor>(numeral a :: rat) / numeral b\<rfloor> = numeral a div numeral b"
  using floor_divide_of_int_eq [of "numeral a" "numeral b", where ?'a = rat] by simp

lemmas str_eval =
  fmt2_def round_half_even_def str_whole_rat_def str_int_def str_nat_numeral str_nat_0
  str_nat_1 digit_char_def Let_def floor_rat_numeral_div

lemma fmt2_examples:
  "fmt2 0 = ''0.00''" "fmt2 50 = ''50.00''" "fmt2 100 = ''100.00''" "fmt2 150 = ''150.00''"
  "fmt2 250 = ''250.00''" "fmt2 45 = ''45.00''" "fmt2 295 = ''295.00''"
  by (simp_all add: str_eval)

lemma format_2f_examples:
  "format_2f (Num False 0) = ''0.00''" "format_2f (Num True 0) = ''-0.00''"
  "format_2f (Num False 50) = ''50.00''" "format_2f (Num False 100) = ''100.00''"
  "format_2f (Num False 150) = ''150.00''" "format_2f (Num False 250) = ''250.00''"
  "format_2f (Num False 45) = ''45.00''" "format_2f (Num False 295) = ''295.00''"
  by (simp_all add: format_2f.simps str_eval)

subsection \<open>Rounding to a double\<close>

lemma bit_length_bounds:
  "0 < n \<Longrightarrow> 2 ^ (bit_length n - 1) \<le> n \<and> n < 2 ^ bit_length n"
proof (induction n rule: bit_length.induct)
  case (1 n)
  show ?case
  proof (cases "n div 2 = 0")
    case True
    with "1.prems" have "n = 1" by (simp add: div_eq_0_iff)
    then show ?thesis by (simp add: bit_length.simps)
  next
    case False
    then have pos: "0 < n div 2" by simp
    from "1.IH" [OF _ pos] "1.prems"
    have ih: "2 ^ (bit_length (n div 2) - 1) \<le> n div 2" "n div 2 < 2 ^ bit_length (n div 2)"
      by simp_all
    have b: "bit_length n = Suc (bit_length (n div 2))"
      using "1.prems" by (subst bit_length.simps) simp
    have bp: "0 < bit_length (n div 2)"
      using pos by (subst bit_length.simps) simp
    then obtain k where k: "bit_length (n div 2) = Suc k"
      by (cases "bit_length (n div 2)") simp_all
    from ih k have "2 * 2 ^ k \<le> 2 * (n div 2)" by simp
    then have lo: "2 ^ Suc k \<le> n" by simp
    from ih k have "n div 2 + 1 \<le> 2 * 2 ^ k" by simp
    then have hi: "n < 2 * (2 * 2 ^ k)" by linarith
    from lo hi show ?thesis by (simp add: b k)
  qed
qed

text \<open>\<open>exponent\<close> is the binary exponent: it satisfies the two bounds, and only it does.\<close>

lemma exponent_bounds:
  assumes "0 < m"
  shows "2 powi exponent m \<le> m \<and> m < 2 powi (exponent m + 1)"
proof (cases "1 \<le> m")
  case True
  define n where "n = nat \<lfloor>m\<rfloor>"
  have n: "0 < n" "of_nat n \<le> m" "m < of_nat n + 1"
    using True by (simp_all add: n_def) linarith+
  note b = bit_length_bounds [OF n(1)]
  have bp: "0 < bit_length n" using n(1) by (subst bit_length.simps) simp
  then obtain k where k: "bit_length n = Suc k" by (cases "bit_length n") simp_all
  have e: "exponent m = int k"
    using True by (simp add: exponent_def n_def [symmetric] k)
  have "(2::rat) ^ k \<le> of_nat n"
    using b k by (metis diff_Suc_1 of_nat_le_iff of_nat_numeral of_nat_power)
  then have lo: "(2::rat) ^ k \<le> m" using n(2) by linarith
  have "n + 1 \<le> 2 ^ Suc k" using b k by simp
  then have "(of_nat (n + 1)::rat) \<le> 2 ^ Suc k"
    by (metis of_nat_le_iff of_nat_numeral of_nat_power)
  then have hi: "m < (2::rat) ^ Suc k" using n(3) by simp
  have e1: "exponent m + 1 = int (Suc k)" using e by simp
  have p0: "(2::rat) powi exponent m = 2 ^ k" unfolding e by simp
  have p1: "(2::rat) powi (exponent m + 1) = 2 ^ Suc k" unfolding e1 by (rule power_int_of_nat)
  from lo hi show ?thesis unfolding p0 p1 by (rule conjI)
next
  case False
  define c where "c = \<lceil>1 / m\<rceil>"
  define n where "n = nat (c - 1)"
  from False assms have x: "1 < 1 / m" by simp
  then have c2: "2 \<le> c" unfolding c_def by linarith
  have cx: "of_int c - 1 < 1 / m" "1 / m \<le> of_int c" unfolding c_def by linarith+
  have n: "0 < n" "int n = c - 1" using c2 by (simp_all add: n_def)
  note b = bit_length_bounds [OF n(1)]
  have e: "exponent m = - int (bit_length n)"
    using False by (simp add: exponent_def n_def c_def)
  have nr: "(of_nat n :: rat) = of_int c - 1"
    using n(2) by (metis of_int_1 of_int_diff of_int_of_nat_eq)
  have "n + 1 \<le> 2 ^ bit_length n" using b by simp
  then have "(of_nat (n + 1)::rat) \<le> of_nat (2 ^ bit_length n)"
    by (simp only: of_nat_le_iff)
  then have nb: "(of_nat n :: rat) + 1 \<le> 2 ^ bit_length n" by simp
  have "1 / m \<le> 2 ^ bit_length n" using cx(2) nr nb by linarith
  then have lo: "1 / 2 ^ bit_length n \<le> m" using assms by (simp add: field_simps)
  have bp: "0 < bit_length n" using n(1) by (subst bit_length.simps) simp
  then obtain k where k: "bit_length n = Suc k" by (cases "bit_length n") simp_all
  have "(2::rat) ^ k \<le> of_nat n"
    using b k by (metis diff_Suc_1 of_nat_le_iff of_nat_numeral of_nat_power)
  then have "2 ^ k < 1 / m" using cx(1) nr by linarith
  then have hi: "m < 1 / 2 ^ k" using assms by (simp add: field_simps)
  have e1: "exponent m + 1 = - int k" using e k by simp
  have p0: "(2::rat) powi exponent m = 1 / 2 ^ bit_length n"
    unfolding e by (simp only: power_int_minus_divide power_int_of_nat)
  have p1: "(2::rat) powi (exponent m + 1) = 1 / 2 ^ k"
    unfolding e1 by (simp only: power_int_minus_divide power_int_of_nat)
  from lo hi show ?thesis unfolding p0 p1 by (rule conjI)
qed

lemma exponent_unique:
  assumes "0 < m" "2 powi e \<le> m" "m < 2 powi (e + 1)"
  shows "exponent m = e"
proof -
  note b = exponent_bounds [OF assms(1)]
  have "\<not> exponent m < e"
  proof
    assume "exponent m < e"
    then have "(2::rat) powi (exponent m + 1) \<le> 2 powi e"
      by (intro power_int_increasing) simp_all
    with b assms show False by linarith
  qed
  moreover have "\<not> e < exponent m"
  proof
    assume "e < exponent m"
    then have "(2::rat) powi (e + 1) \<le> 2 powi exponent m"
      by (intro power_int_increasing) simp_all
    with b assms show False by linarith
  qed
  ultimately show ?thesis by simp
qed

text \<open>Rounding a magnitude whose binary exponent is known.\<close>

lemma round_mag_eq:
  assumes "0 < m" "2 powi e \<le> m" "m < 2 powi (e + 1)" "- 1022 \<le> e"
  shows "round_mag m = of_int (round_half_even (m / 2 powi (e - 52))) * 2 powi (e - 52)"
  using assms by (simp add: round_mag_def quantum_def exponent_unique [OF assms(1-3)] max_def)

lemma round_mag_0: "round_mag 0 = 0"
  by (simp add: round_mag_def)

text \<open>
  The facts that evaluate one float operation on numerals; the binary exponent of the
  exact result is given with \<open>round_mag_eq\<close>.
\<close>

lemmas op_eval =
  fmul.simps fadd.simps fdiv100.simps fval.simps mk_float_def round_mag_0
  round_half_even_def Let_def floor_rat_numeral_div

lemma float_of_small_int:
  "float_of_int 1 = Num False 1" "float_of_int 2 = Num False 2"
  "float_of_int (- 1) = Num True 1"
  by (simp_all add: float_of_int_def op_eval round_mag_eq [where e = 0]
      round_mag_eq [where e = 1])

lemma fits_double_small: "fits_double 1" "fits_double 2" "fits_double (- 1)"
  by (simp_all add: fits_double_def round_half_even_def Let_def
      round_mag_eq [where e = 0] round_mag_eq [where e = 1])

lemma python_floats_simps:
  "num_zero (python_floats sf) = Num False 0"
  "num_times_int (python_floats sf) qty price = fmul (float_of_int qty) price"
  "num_add (python_floats sf) = fadd"
  "num_mul (python_floats sf) = fmul"
  "num_div100 (python_floats sf) = fdiv100"
  "num_format_2f (python_floats sf) = format_2f"
  "num_str (python_floats sf) = sf"
  by (simp_all add: python_floats_def)

subsection \<open>What \<open>generate_invoice\<close> returns\<close>

lemma drawn_tables_append: "drawn_tables (xs @ ys) = drawn_tables xs @ drawn_tables ys"
  by (induction xs rule: drawn_tables.induct) simp_all

lemma drawn_tables_logo: "drawn_tables (draw_logo logo_path) = []"
  by (simp add: draw_logo_def split: option.splits)

lemma drawn_strings_append: "drawn_strings (xs @ ys) = drawn_strings xs @ drawn_strings ys"
  by (induction xs rule: drawn_strings.induct) simp_all

lemma drawn_strings_logo: "drawn_strings (draw_logo logo_path) = []"
  by (simp add: draw_logo_def split: option.splits)

lemma generate_invoice_document:
  "document (generate_invoice A company customer email items cur tax logo c) =
     draw_border @ draw_logo logo
     @ [SetFont ''Helvetica-Bold'' 18,
        DrawString left_margin top_margin (''Invoice - '' @ company),
        SetFont ''Helvetica'' 12,
        DrawString left_margin (top_margin - 60) (''Customer: '' @ customer),
        DrawString left_margin (top_margin - 80) (''Email: '' @ email),
        DrawString (left_margin + 300) top_margin
          (''Invoice Date: '' @ strftime_date (readings c (reads c))),
        DrawString (left_margin + 300) (top_margin - 20)
          (''Purchase Time: '' @ strftime_time (readings c (Suc (reads c))))]
     @ draw_table (data (build_table A items cur tax)) items @ draw_footer @ [Save]"
  by (simp add: document_def generate_invoice_def now_def Let_def)

lemma generate_invoice_Inr:
  "fst (generate_invoice A company customer email items cur tax logo c) =
     Inr (document (generate_invoice A company customer email items cur tax logo c))"
  by (simp add: document_def generate_invoice_def now_def Let_def)

lemma generate_invoice_no_error:
  "fst (generate_invoice A company customer email items cur tax logo c) \<noteq> Inl e"
  by (simp add: generate_invoice_Inr)

lemma generate_invoice_clock:
  "snd (generate_invoice A company customer email items cur tax logo c) =
     c\<lparr>reads := Suc (Suc (reads c))\<rparr>"
  by (simp add: generate_invoice_def now_def Let_def)

text \<open>
  The one table that \<open>generate_invoice\<close> draws holds the rows of \<open>build_table\<close>: the
  properties of \<open>build_table\<close> below are properties of the document.
\<close>

lemma generate_invoice_tables:
  "drawn_tables (document (generate_invoice A company customer email items cur tax logo c)) =
     [(\<lparr> cells = data (build_table A items cur tax), colWidths = [200, 80, 100, 100],
          style = table_style \<rparr>, left_margin, table_y items)]"
  by (simp add: generate_invoice_document drawn_tables_append drawn_tables_logo
      draw_border_def draw_table_def draw_footer_def Let_def)

lemma generate_invoice_strings:
  "drawn_strings (document (generate_invoice A company customer email items cur tax logo c)) =
     [(50, 600, ''Invoice - '' @ company),
      (50, 540, ''Customer: '' @ customer),
      (50, 520, ''Email: '' @ email),
      (350, 600, ''Invoice Date: '' @ strftime_date (readings c (reads c))),
      (350, 580, ''Purchase Time: '' @ strftime_time (readings c (Suc (reads c)))),
      (50, 70, ''Thank you for your business!''),
      (50, 50, ''Terms & Conditions: Payment due within 30 days.'')]"
  by (simp add: generate_invoice_document drawn_strings_append drawn_strings_logo
      draw_border_def draw_table_def draw_footer_def Let_def left_margin_def top_margin_def
      bottom_margin_def)

subsection \<open>The concrete inputs, evaluated\<close>

lemma widget_gadget_ops:
  "fmul (Num False 2) (Num False 50) = Num False 100"
  "fmul (Num False 1) (Num False 150) = Num False 150"
  "fadd (Num False 0) (Num False 100) = Num False 100"
  "fadd (Num False 100) (Num False 150) = Num False 250"
  "fmul (Num False 250) (Num False 18) = Num False 4500"
  "fdiv100 (Num False 4500) = Num False 45"
  "fadd (Num False 250) (Num False 45) = Num False 295"
  by (simp_all add: op_eval round_mag_eq [where e = 5] round_mag_eq [where e = 6]
      round_mag_eq [where e = 7] round_mag_eq [where e = 8] round_mag_eq [where e = 12])

lemma valid_widget_gadget: "valid_items widget_gadget" "valid_tax (Num False 18)"
  by (simp_all add: valid_items_def widget_gadget_def valid_tax_def fits_double_small
      round_mag_eq [where e = 4] round_mag_eq [where e = 5] round_mag_eq [where e = 7]
      round_half_even_def Let_def)

lemma widget_gadget_totals:
  "total_amount (build_table (python_floats sf) widget_gadget cur (Num False 18)) = Num False 250"
  "tax_amount (build_table (python_floats sf) widget_gadget cur (Num False 18)) = Num False 45"
  "grand_total (build_table (python_floats sf) widget_gadget cur (Num False 18)) = Num False 295"
proof -
  show t: "total_amount (build_table (python_floats sf) widget_gadget cur (Num False 18))
      = Num False 250"
    by (simp add: build_table_total python_floats_simps widget_gadget_def float_of_small_int
        widget_gadget_ops)
  show x: "tax_amount (build_table (python_floats sf) widget_gadget cur (Num False 18))
      = Num False 45"
    by (simp add: build_table_tax t python_floats_simps widget_gadget_ops)
  show "grand_total (build_table (python_floats sf) widget_gadget cur (Num False 18))
      = Num False 295"
    by (simp add: build_table_grand t x python_floats_simps widget_gadget_ops)
qed

lemma item_rows_widget_gadget:
  "map (item_row (python_floats sf)) widget_gadget =
     [[''Widget'', ''2'', ''50.00'', ''100.00''], [''Gadget'', ''1'', ''150.00'', ''150.00'']]"
proof -
  have s: "str_int 2 = ''2''" "str_int 1 = ''1''" by (simp_all add: str_eval)
  show ?thesis
    by (simp add: widget_gadget_def python_floats_simps float_of_small_int widget_gadget_ops s
        format_2f_examples)
qed

lemma one_bolt_ops:
  "fmul (Num False 1) (Num False (5 / 4)) = Num False (5 / 4)"
  "fadd (Num False 0) (Num False (5 / 4)) = Num False (5 / 4)"
  "fmul (Num False (5 / 4)) (Num False 18) = Num False (45 / 2)"
  "fdiv100 (Num False (45 / 2)) = Num False (8106479329266893 / 36028797018963968)"
  "fadd (Num False (5 / 4)) (Num False (8106479329266893 / 36028797018963968))
     = Num False (3321404725185741 / 2251799813685248)"
  by (simp_all add: op_eval round_mag_eq [where e = 0] round_mag_eq [where e = 4]
      round_mag_eq [where e = "- 3"])

lemma valid_one_bolt: "valid_items one_bolt"
  by (simp add: valid_items_def one_bolt_def fits_double_small round_mag_eq [where e = 0]
      round_half_even_def Let_def)

lemma one_bolt_totals:
  "total_amount (build_table (python_floats sf) one_bolt cur (Num False 18))
     = Num False (5 / 4)"
  "tax_amount (build_table (python_floats sf) one_bolt cur (Num False 18))
     = Num False (8106479329266893 / 36028797018963968)"
  "grand_total (build_table (python_floats sf) one_bolt cur (Num False 18))
     = Num False (3321404725185741 / 2251799813685248)"
proof -
  show t: "total_amount (build_table (python_floats sf) one_bolt cur (Num False 18))
     = Num False (5 / 4)"
    by (simp add: build_table_total python_floats_simps one_bolt_def float_of_small_int
        one_bolt_ops)
  show x: "tax_amount (build_table (python_floats sf) one_bolt cur (Num False 18))
     = Num False (8106479329266893 / 36028797018963968)"
    by (simp add: build_table_tax t python_floats_simps one_bolt_ops)
  show "grand_total (build_table (python_floats sf) one_bolt cur (Num False 18))
     = Num False (3321404725185741 / 2251799813685248)"
    by (simp add: build_table_grand t x python_floats_simps one_bolt_ops)
qed

lemma one_bolt_texts:
  "format_2f (Num False (5 / 4)) = ''1.25''"
  "format_2f (Num False (8106479329266893 / 36028797018963968)) = ''0.23''"
  "format_2f (Num False (3321404725185741 / 2251799813685248)) = ''1.48''"
  "fmt2 (9 / 40) = ''0.22''"
  by (simp_all add: format_2f.simps str_eval)

lemma one_clip_ops:
  "fmul (Num False 1) (Num False (1 / 4)) = Num False (1 / 4)"
  "fadd (Num False 0) (Num False (1 / 4)) = Num False (1 / 4)"
  "fmul (Num False (1 / 4)) (Num False 18) = Num False (9 / 2)"
  "fdiv100 (Num False (9 / 2)) = Num False (3242591731706757 / 72057594037927936)"
  "fadd (Num False (1 / 4)) (Num False (3242591731706757 / 72057594037927936))
     = Num False (5314247560297185 / 18014398509481984)"
  by (simp_all add: op_eval round_mag_eq [where e = "- 2"] round_mag_eq [where e = 2]
      round_mag_eq [where e = "- 5"])

lemma valid_one_clip: "valid_items one_clip"
  by (simp add: valid_items_def one_clip_def fits_double_small round_mag_eq [where e = "- 2"]
      round_half_even_def Let_def)

lemma one_clip_totals:
  "total_amount (build_table (python_floats sf) one_clip cur (Num False 18))
     = Num False (1 / 4)"
  "tax_amount (build_table (python_floats sf) one_clip cur (Num False 18))
     = Num False (3242591731706757 / 72057594037927936)"
  "grand_total (build_table (python_floats sf) one_clip cur (Num False 18))
     = Num False (5314247560297185 / 18014398509481984)"
proof -
  show t: "total_amount (build_table (python_floats sf) one_clip cur (Num False 18))
     = Num False (1 / 4)"
    by (simp add: build_table_total python_floats_simps one_clip_def float_of_small_int
        one_clip_ops)
  show x: "tax_amount (build_table (python_floats sf) one_clip cur (Num False 18))
     = Num False (3242591731706757 / 72057594037927936)"
    by (simp add: build_table_tax t python_floats_simps one_clip_ops)
  show "grand_total (build_table (python_floats sf) one_clip cur (Num False 18))
     = Num False (5314247560297185 / 18014398509481984)"
    by (simp add: build_table_grand t x python_floats_simps one_clip_ops)
qed

lemma small_ops:
  "fmul (Num False 1) (Num False (1152921504606847 / 288230376151711744))
     = Num False (1152921504606847 / 288230376151711744)"
  "fadd (Num False 0) (Num False (1152921504606847 / 288230376151711744))
     = Num False (1152921504606847 / 288230376151711744)"
  "fadd (Num False (1152921504606847 / 288230376151711744))
        (Num False (1152921504606847 / 288230376151711744))
     = Num False (1152921504606847 / 144115188075855872)"
  "fmul (Num False (1152921504606847 / 144115188075855872)) (Num False 0) = Num False 0"
  "fdiv100 (Num False 0) = Num False 0"
  "fadd (Num False (1152921504606847 / 144115188075855872)) (Num False 0)
     = Num False (1152921504606847 / 144115188075855872)"
  by (simp_all add: op_eval round_mag_eq [where e = "- 8"] round_mag_eq [where e = "- 7"])

lemma small_texts:
  "format_2f (Num False (1152921504606847 / 288230376151711744)) = ''0.00''"
  "format_2f (Num False (1152921504606847 / 144115188075855872)) = ''0.01''"
  by (simp_all add: format_2f.simps str_eval)

lemma valid_two_small_lines: "valid_items two_small_lines" "valid_tax (Num False 0)"
  by (simp_all add: valid_items_def two_small_lines_def valid_tax_def fits_double_small
      round_mag_eq [where e = "- 8"] round_mag_0 round_half_even_def Let_def)

lemma refund_ops:
  "fmul (Num True 1) (Num False 10) = Num True 10"
  "fadd (Num False 0) (Num True 10) = Num True 10"
  "fmul (Num True 10) (Num False 18) = Num True 180"
  "fdiv100 (Num True 180) = Num True (8106479329266893 / 4503599627370496)"
  "fadd (Num True 10) (Num True (8106479329266893 / 4503599627370496))
     = Num True (3321404725185741 / 281474976710656)"
  by (simp_all add: op_eval round_mag_eq [where e = 3] round_mag_eq [where e = 7]
      round_mag_eq [where e = 0])

lemma refund_totals:
  "total_amount (build_table (python_floats sf) refund cur (Num False 18)) = Num True 10"
  "tax_amount (build_table (python_floats sf) refund cur (Num False 18))
     = Num True (8106479329266893 / 4503599627370496)"
  "grand_total (build_table (python_floats sf) refund cur (Num False 18))
     = Num True (3321404725185741 / 281474976710656)"
proof -
  show t: "total_amount (build_table (python_floats sf) refund cur (Num False 18))
      = Num True 10"
    by (simp add: build_table_total python_floats_simps refund_def float_of_small_int
        refund_ops)
  show x: "tax_amount (build_table (python_floats sf) refund cur (Num False 18))
     = Num True (8106479329266893 / 4503599627370496)"
    by (simp add: build_table_tax t python_floats_simps refund_ops)
  show "grand_total (build_table (python_floats sf) refund cur (Num False 18))
     = Num True (3321404725185741 / 281474976710656)"
    by (simp add: build_table_grand t x python_floats_simps refund_ops)
qed

text \<open>With no items: the subtotal is 0, and the tax amount is a zero with the sign of the
  tax percentage.\<close>

lemma empty_ops:
  "fmul (Num False 0) (Num s m) = Num s 0"
  "fdiv100 (Num s 0) = Num s 0"
  "fadd (Num False 0) (Num s 0) = Num False 0"
  by (simp_all add: op_eval)

subsection \<open>Totals\<close>

text \<open>
  Claim C1, as amended. For an item list with quantities at least 1 and prices at least 0,
  and a tax percentage in [0, 100], the totals of \<open>generate_invoice\<close> are computed in
  floating point: the subtotal is the sum, taken from 0 in the order of the items, of the
  products quantity times unit price; the tax amount is the subtotal times the percentage,
  divided by 100; the grand total is the subtotal plus the tax amount. Every product, sum
  and quotient is that of Python's floats, rounded to the nearest double, and nothing is
  rounded to two decimals on the way.
\<close>

theorem float_totals:
  assumes "valid_items items" and "valid_tax tax_percentage"
  shows "total_amount (build_table (python_floats sf) items cur tax_percentage)
           = foldl fadd (Num False 0)
               (map (\<lambda>(item_name, qty, price). fmul (float_of_int qty) price) items)
       \<and> tax_amount (build_table (python_floats sf) items cur tax_percentage)
           = fdiv100 (fmul (total_amount (build_table (python_floats sf) items cur
                              tax_percentage)) tax_percentage)
       \<and> grand_total (build_table (python_floats sf) items cur tax_percentage)
           = fadd (total_amount (build_table (python_floats sf) items cur tax_percentage))
               (tax_amount (build_table (python_floats sf) items cur tax_percentage))"
proof -
  have "total_price (python_floats sf)
      = (\<lambda>(item_name, qty, price). fmul (float_of_int qty) price)"
    by (auto simp: fun_eq_iff python_floats_simps)
  then have "total_amount (build_table (python_floats sf) items cur tax_percentage)
           = foldl fadd (Num False 0)
               (map (\<lambda>(item_name, qty, price). fmul (float_of_int qty) price) items)"
    by (simp add: build_table_total python_floats_simps)
  moreover have "tax_amount (build_table (python_floats sf) items cur tax_percentage)
           = fdiv100 (fmul (total_amount (build_table (python_floats sf) items cur
                              tax_percentage)) tax_percentage)"
    by (simp add: build_table_tax python_floats_simps)
  moreover have "grand_total (build_table (python_floats sf) items cur tax_percentage)
           = fadd (total_amount (build_table (python_floats sf) items cur tax_percentage))
               (tax_amount (build_table (python_floats sf) items cur tax_percentage))"
    by (simp add: build_table_grand python_floats_simps)
  ultimately show ?thesis by blast
qed

text \<open>One line of 1 at 1.25 with 18 percent tax: the tax amount is the double next to 0.225.\<close>

theorem float_totals_witness:
  "valid_items one_bolt \<and> valid_tax (Num False 18)
   \<and> total_amount (build_table (python_floats str_whole) one_bolt ''$'' (Num False 18))
       = Num False (5 / 4)
   \<and> tax_amount (build_table (python_floats str_whole) one_bolt ''$'' (Num False 18))
       = Num False (8106479329266893 / 36028797018963968)
   \<and> grand_total (build_table (python_floats str_whole) one_bolt ''$'' (Num False 18))
       = Num False (3321404725185741 / 2251799813685248)"
proof -
  note r = float_totals [OF valid_one_bolt valid_widget_gadget(2), of str_whole "''$''"]
  have t: "total_amount (build_table (python_floats str_whole) one_bolt ''$'' (Num False 18))
       = Num False (5 / 4)"
    using r [THEN conjunct1] by (simp add: one_bolt_def float_of_small_int one_bolt_ops)
  have x: "tax_amount (build_table (python_floats str_whole) one_bolt ''$'' (Num False 18))
       = Num False (8106479329266893 / 36028797018963968)"
    using r [THEN conjunct2, THEN conjunct1] unfolding t by (simp add: one_bolt_ops)
  have g: "grand_total (build_table (python_floats str_whole) one_bolt ''$'' (Num False 18))
       = Num False (3321404725185741 / 2251799813685248)"
    using r [THEN conjunct2, THEN conjunct2] unfolding t x by (simp add: one_bolt_ops)
  from valid_one_bolt valid_widget_gadget(2) t x g show ?thesis by blast
qed

text \<open>
  Claim C1 as the specification states it, with the exact sum, product and quotient, does
  not hold: for the valid input of one line of 1 at 1.25 and 18 percent tax the tax amount
  is not 1.25 times 18 divided by 100 (it is displayed as 0.23, where 0.225 would be
  displayed as 0.22).
\<close>

theorem exact_totals_counterexample:
  "valid_items one_bolt \<and> valid_tax (Num False 18)
   \<and> \<not> (fval (total_amount (build_table (python_floats str_whole) one_bolt ''$''
                 (Num False 18))) = 1 * (5 / 4)
        \<and> fval (tax_amount (build_table (python_floats str_whole) one_bolt ''$''
                 (Num False 18)))
            = fval (total_amount (build_table (python_floats str_whole) one_bolt ''$''
                 (Num False 18))) * 18 / 100
        \<and> fval (grand_total (build_table (python_floats str_whole) one_bolt ''$''
                 (Num False 18)))
            = fval (total_amount (build_table (python_floats str_whole) one_bolt ''$''
                 (Num False 18)))
              + fval (tax_amount (build_table (python_floats str_whole) one_bolt ''$''
                 (Num False 18))))"
  by (simp add: valid_one_bolt valid_widget_gadget(2) one_bolt_totals)

subsection \<open>The rows of the table\<close>

text \<open>
  Claim C2. For a valid item list and tax percentage the rows of the table are, in this
  order: one header row of four column titles, the currency symbol in the last two of
  them; one row per item, in the order of the input; the three summary rows Subtotal,
  Tax (percent%) and Grand Total. So the table has 1 + number of items + 3 rows. This holds
  for every item list and in either arithmetic.
\<close>

theorem table_row_order:
  "data (build_table A items cur tax_percentage) =
     [''Item'', ''Quantity'', ''Unit Price ('' @ cur @ '')'', ''Total Price ('' @ cur @ '')'']
     # map (item_row A) items
     @ [['''', '''', ''Subtotal:'',
         cur @ '' '' @ num_format_2f A (total_amount (build_table A items cur tax_percentage))],
        ['''', '''', ''Tax ('' @ num_str A tax_percentage @ ''%):'',
         cur @ '' '' @ num_format_2f A (tax_amount (build_table A items cur tax_percentage))],
        ['''', '''', ''Grand Total:'',
         cur @ '' '' @ num_format_2f A (grand_total (build_table A items cur tax_percentage))]]
   \<and> length (data (build_table A items cur tax_percentage)) = 1 + length items + 3"
  by (simp add: build_table_data header_row_def subtotal_row_def tax_row_def
      grand_total_row_def)

theorem table_row_order_witness:
  "valid_items widget_gadget \<and> valid_tax (Num False 18)
   \<and> length (data (build_table (python_floats str_whole) widget_gadget ''$'' (Num False 18))) = 6
   \<and> take 3 (data (build_table (python_floats str_whole) widget_gadget ''$'' (Num False 18))) =
       [[''Item'', ''Quantity'', ''Unit Price ($)'', ''Total Price ($)''],
        [''Widget'', ''2'', ''50.00'', ''100.00''],
        [''Gadget'', ''1'', ''150.00'', ''150.00'']]"
proof -
  have n: "length widget_gadget = 2" by (simp add: widget_gadget_def)
  from table_row_order [of "python_floats str_whole" widget_gadget "''$''" "Num False 18"]
  show ?thesis
    by (simp add: valid_widget_gadget item_rows_widget_gadget n)
qed

subsection \<open>The example of the specification\<close>

text \<open>
  Claim C3, as amended. For the items Widget (2 at 50.00) and Gadget (1 at 150.00) and a
  tax of 18 percent the subtotal is 250.00, the tax amount 45.00 and the grand total
  295.00. The table has the header row, two item rows and three summary rows: six rows.
\<close>

theorem example_invoice:
  "total_amount (build_table (python_floats str_whole) widget_gadget ''$'' (Num False 18))
     = Num False 250
   \<and> tax_amount (build_table (python_floats str_whole) widget_gadget ''$'' (Num False 18))
     = Num False 45
   \<and> grand_total (build_table (python_floats str_whole) widget_gadget ''$'' (Num False 18))
     = Num False 295
   \<and> data (build_table (python_floats str_whole) widget_gadget ''$'' (Num False 18)) =
       [[''Item'', ''Quantity'', ''Unit Price ($)'', ''Total Price ($)''],
        [''Widget'', ''2'', ''50.00'', ''100.00''],
        [''Gadget'', ''1'', ''150.00'', ''150.00''],
        ['''', '''', ''Subtotal:'', ''$ 250.00''],
        ['''', '''', ''Tax (18.0%):'', ''$ 45.00''],
        ['''', '''', ''Grand Total:'', ''$ 295.00'']]
   \<and> length (data (build_table (python_floats str_whole) widget_gadget ''$'' (Num False 18)))
     = 6"
proof -
  have tax: "str_whole (Num False 18) = ''18.0''" by (simp add: str_whole.simps str_eval)
  note w = widget_gadget_totals [of str_whole "''$''"]
  have d: "data (build_table (python_floats str_whole) widget_gadget ''$'' (Num False 18)) =
       [[''Item'', ''Quantity'', ''Unit Price ($)'', ''Total Price ($)''],
        [''Widget'', ''2'', ''50.00'', ''100.00''],
        [''Gadget'', ''1'', ''150.00'', ''150.00''],
        ['''', '''', ''Subtotal:'', ''$ 250.00''],
        ['''', '''', ''Tax (18.0%):'', ''$ 45.00''],
        ['''', '''', ''Grand Total:'', ''$ 295.00'']]"
    by (simp add: build_table_data w item_rows_widget_gadget header_row_def
        subtotal_row_def tax_row_def grand_total_row_def python_floats_simps
        format_2f_examples tax)
  from w d show ?thesis by simp
qed

text \<open>
  Claim C3 as the specification states it, with seven rows in the table, does not hold:
  the totals are the stated ones and the table has six rows.
\<close>

theorem example_seven_rows_counterexample:
  "\<not> (total_amount (build_table (python_floats str_whole) widget_gadget ''$'' (Num False 18))
        = Num False 250
      \<and> tax_amount (build_table (python_floats str_whole) widget_gadget ''$'' (Num False 18))
        = Num False 45
      \<and> grand_total (build_table (python_floats str_whole) widget_gadget ''$'' (Num False 18))
        = Num False 295
      \<and> length (data (build_table (python_floats str_whole) widget_gadget ''$''
           (Num False 18))) = 7)"
  by (simp add: build_table_data widget_gadget_def)

subsection \<open>Rounding\<close>

text \<open>
  Claim C4, as amended. For a valid input the grand total is the float sum of the subtotal
  and the tax amount, that is their exact sum rounded to the nearest double; the subtotal
  is the float sum of the unrounded line totals and the tax amount is computed from the
  unrounded subtotal. Rounding to two decimals happens once for each displayed value, when
  the value is turned into text: every amount in an item row and in a summary row is
  \<open>format_2f\<close> of a float that was never rounded to two decimals.
\<close>

theorem rounding_only_at_display:
  assumes "valid_items items" and "valid_tax tax_percentage"
  shows "grand_total (build_table (python_floats sf) items cur tax_percentage)
           = fadd (total_amount (build_table (python_floats sf) items cur tax_percentage))
               (tax_amount (build_table (python_floats sf) items cur tax_percentage))
       \<and> total_amount (build_table (python_floats sf) items cur tax_percentage)
           = foldl fadd (Num False 0)
               (map (\<lambda>(item_name, qty, price). fmul (float_of_int qty) price) items)
       \<and> tax_amount (build_table (python_floats sf) items cur tax_percentage)
           = fdiv100 (fmul (total_amount (build_table (python_floats sf) items cur
                              tax_percentage)) tax_percentage)
       \<and> item_rows (length items) (data (build_table (python_floats sf) items cur
             tax_percentage))
           = map (\<lambda>(item_name, qty, price).
                    [item_name, str_int qty, format_2f price,
                     format_2f (fmul (float_of_int qty) price)]) items
       \<and> drop (Suc (length items)) (data (build_table (python_floats sf) items cur
             tax_percentage))
           = [['''', '''', ''Subtotal:'',
               cur @ '' '' @ format_2f (total_amount (build_table (python_floats sf) items cur
                                 tax_percentage))],
              ['''', '''', ''Tax ('' @ sf tax_percentage @ ''%):'',
               cur @ '' '' @ format_2f (tax_amount (build_table (python_floats sf) items cur
                                 tax_percentage))],
              ['''', '''', ''Grand Total:'',
               cur @ '' '' @ format_2f (grand_total (build_table (python_floats sf) items cur
                                 tax_percentage))]]"
proof -
  have p: "total_price (python_floats sf)
      = (\<lambda>(item_name, qty, price). fmul (float_of_int qty) price)"
    by (auto simp: fun_eq_iff python_floats_simps)
  have i: "item_row (python_floats sf) = (\<lambda>(item_name, qty, price).
                    [item_name, str_int qty, format_2f price,
                     format_2f (fmul (float_of_int qty) price)])"
    by (auto simp: fun_eq_iff python_floats_simps)
  have g: "grand_total (build_table (python_floats sf) items cur tax_percentage)
           = fadd (total_amount (build_table (python_floats sf) items cur tax_percentage))
               (tax_amount (build_table (python_floats sf) items cur tax_percentage))"
    by (simp add: build_table_grand python_floats_simps)
  have t: "total_amount (build_table (python_floats sf) items cur tax_percentage)
           = foldl fadd (Num False 0)
               (map (\<lambda>(item_name, qty, price). fmul (float_of_int qty) price) items)"
    using p by (simp add: build_table_total python_floats_simps)
  have x: "tax_amount (build_table (python_floats sf) items cur tax_percentage)
           = fdiv100 (fmul (total_amount (build_table (python_floats sf) items cur
                              tax_percentage)) tax_percentage)"
    by (simp add: build_table_tax python_floats_simps)
  have r: "item_rows (length items) (data (build_table (python_floats sf) items cur
             tax_percentage))
           = map (\<lambda>(item_name, qty, price).
                    [item_name, str_int qty, format_2f price,
                     format_2f (fmul (float_of_int qty) price)]) items"
    using i by (simp add: item_rows_data)
  have s: "drop (Suc (length items)) (data (build_table (python_floats sf) items cur
             tax_percentage))
           = [['''', '''', ''Subtotal:'',
               cur @ '' '' @ format_2f (total_amount (build_table (python_floats sf) items cur
                                 tax_percentage))],
              ['''', '''', ''Tax ('' @ sf tax_percentage @ ''%):'',
               cur @ '' '' @ format_2f (tax_amount (build_table (python_floats sf) items cur
                                 tax_percentage))],
              ['''', '''', ''Grand Total:'',
               cur @ '' '' @ format_2f (grand_total (build_table (python_floats sf) items cur
                                 tax_percentage))]]"
    by (simp add: summary_rows_data subtotal_row_def tax_row_def grand_total_row_def
        python_floats_simps)
  from g t x r s show ?thesis by blast
qed

text \<open>
  Two lines of 0.004 each: every line total is displayed as 0.00, and the subtotal,
  summed before rounding to two decimals, as 0.01.
\<close>

theorem rounding_only_at_display_witness:
  "valid_items two_small_lines \<and> valid_tax (Num False 0)
   \<and> total_amount (build_table (python_floats str_whole) two_small_lines ''$'' (Num False 0))
       = Num False (1152921504606847 / 144115188075855872)
   \<and> grand_total (build_table (python_floats str_whole) two_small_lines ''$'' (Num False 0))
       = Num False (1152921504606847 / 144115188075855872)
   \<and> item_rows 2 (data (build_table (python_floats str_whole) two_small_lines ''$''
         (Num False 0)))
       = [[''Washer'', ''1'', ''0.00'', ''0.00''], [''Spacer'', ''1'', ''0.00'', ''0.00'']]
   \<and> drop 3 (data (build_table (python_floats str_whole) two_small_lines ''$'' (Num False 0)))
       = [['''', '''', ''Subtotal:'', ''$ 0.01''],
          ['''', '''', ''Tax (0.0%):'', ''$ 0.00''],
          ['''', '''', ''Grand Total:'', ''$ 0.01'']]"
proof -
  note v = valid_two_small_lines
  have n: "length two_small_lines = 2" "Suc (length two_small_lines) = 3"
    by (simp_all add: two_small_lines_def)
  have z: "str_whole (Num False 0) = ''0.0''" "str_int 1 = ''1''"
    by (simp_all add: str_whole.simps str_eval)
  note r = rounding_only_at_display [OF v, of str_whole "''$''", unfolded n]
  have t: "total_amount (build_table (python_floats str_whole) two_small_lines ''$''
      (Num False 0)) = Num False (1152921504606847 / 144115188075855872)"
    using r [THEN conjunct2, THEN conjunct1]
    by (simp add: two_small_lines_def float_of_small_int small_ops)
  have x: "tax_amount (build_table (python_floats str_whole) two_small_lines ''$''
      (Num False 0)) = Num False 0"
    using r [THEN conjunct2, THEN conjunct2, THEN conjunct1] unfolding t
    by (simp add: small_ops)
  have g: "grand_total (build_table (python_floats str_whole) two_small_lines ''$''
      (Num False 0)) = Num False (1152921504606847 / 144115188075855872)"
    using r [THEN conjunct1] unfolding t x by (simp add: small_ops)
  have i: "item_rows 2 (data (build_table (python_floats str_whole) two_small_lines ''$''
         (Num False 0)))
       = [[''Washer'', ''1'', ''0.00'', ''0.00''], [''Spacer'', ''1'', ''0.00'', ''0.00'']]"
    using r [THEN conjunct2, THEN conjunct2, THEN conjunct2, THEN conjunct1]
    by (simp add: two_small_lines_def float_of_small_int small_ops small_texts z)
  have d: "drop 3 (data (build_table (python_floats str_whole) two_small_lines ''$''
         (Num False 0)))
       = [['''', '''', ''Subtotal:'', ''$ 0.01''],
          ['''', '''', ''Tax (0.0%):'', ''$ 0.00''],
          ['''', '''', ''Grand Total:'', ''$ 0.01'']]"
    using r [THEN conjunct2, THEN conjunct2, THEN conjunct2, THEN conjunct2]
    unfolding t x g by (simp add: small_texts format_2f_examples z)
  from v t g i d show ?thesis by blast
qed

text \<open>
  Claim C4 as the specification states it, with the grand total exactly the subtotal plus
  the tax amount, does not hold: for the valid input of one line of 1 at 0.25 and 18
  percent tax the grand total is not the exact sum of the subtotal and the tax amount.
\<close>

theorem exact_grand_total_counterexample:
  "valid_items one_clip \<and> valid_tax (Num False 18)
   \<and> fval (grand_total (build_table (python_floats str_whole) one_clip ''$'' (Num False 18)))
       \<noteq> fval (total_amount (build_table (python_floats str_whole) one_clip ''$''
                 (Num False 18)))
           + fval (tax_amount (build_table (python_floats str_whole) one_clip ''$''
                 (Num False 18)))"
  by (simp add: valid_one_clip valid_widget_gadget(2) one_clip_totals)

subsection \<open>No validation, no errors\<close>

lemma build_table_empty:
  "data (build_table (python_floats sf) [] cur (Num s m)) =
     [[''Item'', ''Quantity'', ''Unit Price ('' @ cur @ '')'', ''Total Price ('' @ cur @ '')''],
      ['''', '''', ''Subtotal:'', cur @ '' 0.00''],
      ['''', '''', ''Tax ('' @ sf (Num s m) @ ''%):'',
       cur @ (if s then '' -0.00'' else '' 0.00'')],
      ['''', '''', ''Grand Total:'', cur @ '' 0.00'']]"
proof -
  have t: "total_amount (build_table (python_floats sf) [] cur (Num s m)) = Num False 0"
    by (simp add: build_table_total python_floats_simps)
  have x: "tax_amount (build_table (python_floats sf) [] cur (Num s m)) = Num s 0"
    by (simp add: build_table_tax t python_floats_simps empty_ops)
  have g: "grand_total (build_table (python_floats sf) [] cur (Num s m)) = Num False 0"
    by (simp add: build_table_grand t x python_floats_simps empty_ops)
  have f: "format_2f (Num s 0) = (if s then ''-0.00'' else ''0.00'')"
    by (simp add: format_2f_examples)
  show ?thesis
    by (simp add: build_table_data t x g f header_row_def subtotal_row_def tax_row_def
        grand_total_row_def python_floats_simps format_2f_examples)
qed

text \<open>
  Claim C5, as amended. \<open>generate_invoice\<close> does not validate its arguments and never
  fails with \<open>InvalidInvoiceInput\<close>. For the empty item list and a finite tax percentage
  it returns a document whose table has the header row and the three summary rows:
  Subtotal 0.00, Tax 0.00 (-0.00 when the tax percentage carries a minus sign) and Grand
  Total 0.00. For no item list, empty or not, does it return an error of the
  specification. Only the form keeps the list non-empty.
\<close>

theorem empty_items_document:
  "fst (generate_invoice (python_floats sf) company customer email [] cur (Num s m) logo c)
     = Inr (document
             (generate_invoice (python_floats sf) company customer email [] cur (Num s m) logo c))
   \<and> drawn_tables (document
         (generate_invoice (python_floats sf) company customer email [] cur (Num s m) logo c))
     = [(\<lparr> cells =
            [[''Item'', ''Quantity'', ''Unit Price ('' @ cur @ '')'',
              ''Total Price ('' @ cur @ '')''],
             ['''', '''', ''Subtotal:'', cur @ '' 0.00''],
             ['''', '''', ''Tax ('' @ sf (Num s m) @ ''%):'',
              cur @ (if s then '' -0.00'' else '' 0.00'')],
             ['''', '''', ''Grand Total:'', cur @ '' 0.00'']],
           colWidths = [200, 80, 100, 100], style = table_style \<rparr>, 50, 350)]
   \<and> (\<forall>items tax e.
         fst (generate_invoice (python_floats sf) company customer email items cur tax logo c)
           \<noteq> Inl e)"
  by (simp add: generate_invoice_Inr [symmetric] generate_invoice_tables build_table_empty
      generate_invoice_no_error left_margin_def table_y_def top_margin_def)

text \<open>
  Claim C5 as the specification states it does not hold: with no items the call does not
  fail with \<open>InvalidInvoiceInput\<close>, and the canvas it returns is not empty.
\<close>

theorem empty_items_counterexample:
  "fst (generate_invoice (python_floats str_whole) ''Acme'' ''Bob'' ''bob@example.com'' [] ''$''
          (Num False 18) None frozen_clock) \<noteq> Inl InvalidInvoiceInput
   \<and> document (generate_invoice (python_floats str_whole) ''Acme'' ''Bob'' ''bob@example.com''
          [] ''$'' (Num False 18) None frozen_clock) \<noteq> []"
  by (simp add: generate_invoice_no_error generate_invoice_document)

text \<open>
  Claim C6, as amended. \<open>generate_invoice\<close> does not reject a negative quantity, a
  negative unit price or a negative tax percentage: for such an input (with quantities
  that fit a double) it returns a document as for any other, its one table holding the
  rows of \<open>build_table\<close>, and the totals are computed by the same float operations, so
  they may be negative. Negative values are kept out by the minimum values of the form's
  widgets only.
\<close>

theorem negative_inputs_not_rejected:
  assumes "(\<exists>(item_name, qty, price) \<in> set items. qty < 0 \<or> float_less_0 price)
           \<or> float_less_0 tax_percentage"
    and "list_all (\<lambda>(item_name, qty, price). fits_double qty) items"
  shows "fst (generate_invoice (python_floats sf) company customer email items cur
                tax_percentage logo c)
           = Inr (document (generate_invoice (python_floats sf) company customer email items
                    cur tax_percentage logo c))
       \<and> drawn_tables (document (generate_invoice (python_floats sf) company customer email
             items cur tax_percentage logo c))
           = [(\<lparr> cells = data (build_table (python_floats sf) items cur tax_percentage),
                  colWidths = [200, 80, 100, 100], style = table_style \<rparr>,
               left_margin, table_y items)]
       \<and> total_amount (build_table (python_floats sf) items cur tax_percentage)
           = foldl fadd (Num False 0)
               (map (\<lambda>(item_name, qty, price). fmul (float_of_int qty) price) items)
       \<and> tax_amount (build_table (python_floats sf) items cur tax_percentage)
           = fdiv100 (fmul (total_amount (build_table (python_floats sf) items cur
                              tax_percentage)) tax_percentage)
       \<and> grand_total (build_table (python_floats sf) items cur tax_percentage)
           = fadd (total_amount (build_table (python_floats sf) items cur tax_percentage))
               (tax_amount (build_table (python_floats sf) items cur tax_percentage))"
proof -
  have p: "total_price (python_floats sf)
      = (\<lambda>(item_name, qty, price). fmul (float_of_int qty) price)"
    by (auto simp: fun_eq_iff python_floats_simps)
  have t: "total_amount (build_table (python_floats sf) items cur tax_percentage)
           = foldl fadd (Num False 0)
               (map (\<lambda>(item_name, qty, price). fmul (float_of_int qty) price) items)"
    using p by (simp add: build_table_total python_floats_simps)
  have x: "tax_amount (build_table (python_floats sf) items cur tax_percentage)
           = fdiv100 (fmul (total_amount (build_table (python_floats sf) items cur
                              tax_percentage)) tax_percentage)"
    by (simp add: build_table_tax python_floats_simps)
  have g: "grand_total (build_table (python_floats sf) items cur tax_percentage)
           = fadd (total_amount (build_table (python_floats sf) items cur tax_percentage))
               (tax_amount (build_table (python_floats sf) items cur tax_percentage))"
    by (simp add: build_table_grand python_floats_simps)
  show ?thesis
    by (intro conjI generate_invoice_Inr generate_invoice_tables t x g)
qed

text \<open>
  A refund line of quantity -1 at 10.00 with 18 percent tax: the subtotal is -10, the tax
  amount the double next to -1.8 and the grand total the double next to -11.8.
\<close>

theorem negative_inputs_not_rejected_witness:
  "((\<exists>(item_name, qty, price) \<in> set refund. qty < 0 \<or> float_less_0 price)
      \<or> float_less_0 (Num False 18))
   \<and> list_all (\<lambda>(item_name, qty, price). fits_double qty) refund
   \<and> fst (generate_invoice (python_floats str_whole) ''Acme'' ''Bob'' ''bob@example.com'' refund
            ''$'' (Num False 18) None frozen_clock)
       = Inr (document (generate_invoice (python_floats str_whole) ''Acme'' ''Bob''
                ''bob@example.com'' refund ''$'' (Num False 18) None frozen_clock))
   \<and> total_amount (build_table (python_floats str_whole) refund ''$'' (Num False 18))
       = Num True 10
   \<and> tax_amount (build_table (python_floats str_whole) refund ''$'' (Num False 18))
       = Num True (8106479329266893 / 4503599627370496)
   \<and> grand_total (build_table (python_floats str_whole) refund ''$'' (Num False 18))
       = Num True (3321404725185741 / 281474976710656)"
proof -
  have h1: "(\<exists>(item_name, qty, price) \<in> set refund. qty < 0 \<or> float_less_0 price)
      \<or> float_less_0 (Num False 18)"
    by (simp add: refund_def)
  have h2: "list_all (\<lambda>(item_name, qty, price). fits_double qty) refund"
    by (simp add: refund_def fits_double_small)
  note r = negative_inputs_not_rejected [OF h1 h2, of str_whole "''Acme''" "''Bob''"
      "''bob@example.com''" "''$''" None frozen_clock]
  have a: "fst (generate_invoice (python_floats str_whole) ''Acme'' ''Bob'' ''bob@example.com''
            refund ''$'' (Num False 18) None frozen_clock)
       = Inr (document (generate_invoice (python_floats str_whole) ''Acme'' ''Bob''
                ''bob@example.com'' refund ''$'' (Num False 18) None frozen_clock))"
    using r [THEN conjunct1] .
  have t: "total_amount (build_table (python_floats str_whole) refund ''$'' (Num False 18))
       = Num True 10"
    using r [THEN conjunct2, THEN conjunct2, THEN conjunct1]
    by (simp add: refund_def float_of_small_int refund_ops)
  have x: "tax_amount (build_table (python_floats str_whole) refund ''$'' (Num False 18))
       = Num True (8106479329266893 / 4503599627370496)"
    using r [THEN conjunct2, THEN conjunct2, THEN conjunct2, THEN conjunct1] unfolding t
    by (simp add: refund_ops)
  have g: "grand_total (build_table (python_floats str_whole) refund ''$'' (Num False 18))
       = Num True (3321404725185741 / 281474976710656)"
    using r [THEN conjunct2, THEN conjunct2, THEN conjunct2, THEN conjunct2] unfolding t x
    by (simp add: refund_ops)
  from h1 h2 a t x g show ?thesis by blast
qed

text \<open>
  Claim C6 as the specification states it does not hold: an item with quantity -1 is not
  rejected with \<open>InvalidInvoiceInput\<close>; a document is produced, with subtotal -10.
\<close>

theorem negative_quantity_counterexample:
  "fst (generate_invoice (python_floats str_whole) ''Acme'' ''Bob'' ''bob@example.com'' refund
          ''$'' (Num False 18) None frozen_clock) \<noteq> Inl InvalidInvoiceInput
   \<and> document (generate_invoice (python_floats str_whole) ''Acme'' ''Bob'' ''bob@example.com''
          refund ''$'' (Num False 18) None frozen_clock) \<noteq> []
   \<and> total_amount (build_table (python_floats str_whole) refund ''$'' (Num False 18))
       = Num True 10"
  by (simp add: generate_invoice_no_error generate_invoice_document refund_totals)

subsection \<open>The position of the table\<close>




subsection \<open>The clock\<close>

lemma strftime_examples:
  "strftime_date last_second = ''2024-12-31''" "strftime_time last_second = ''23:59:59''"
  "strftime_date first_second = ''2025-01-01''" "strftime_time first_second = ''00:00:00''"
proof -
  have s: "str_nat 2024 = ''2024''" "str_nat 2025 = ''2025''" "str_nat 12 = ''12''"
    "str_nat 31 = ''31''" "str_nat 23 = ''23''" "str_nat 59 = ''59''"
    by (simp_all add: str_eval)
  have z: "zero_pad 4 2024 = ''2024''" "zero_pad 4 2025 = ''2025''" "zero_pad 2 12 = ''12''"
    "zero_pad 2 31 = ''31''" "zero_pad 2 23 = ''23''" "zero_pad 2 59 = ''59''"
    "zero_pad 2 (Suc 0) = ''01''" "zero_pad 2 0 = ''00''"
    by (simp_all add: zero_pad_def s str_nat_0 str_nat_1)
  show "strftime_date last_second = ''2024-12-31''" "strftime_time last_second = ''23:59:59''"
    "strftime_date first_second = ''2025-01-01''" "strftime_time first_second = ''00:00:00''"
    by (simp_all add: strftime_date_def strftime_time_def last_second_def first_second_def z)
qed

text \<open>
  Claim C8, as amended. \<open>generate_invoice\<close> reads the clock twice in every call, first
  for the invoice date and then for the purchase time. Rendering is deterministic given
  those two readings: two calls with the same arguments, on clocks that return the same two
  readings, return the same document; the date drawn comes from the first reading and the
  time from the second, so both come from one timestamp only if the two readings agree.
\<close>

theorem render_deterministic_given_clock:
  assumes "readings c (reads c) = readings c' (reads c')"
    and "readings c (Suc (reads c)) = readings c' (Suc (reads c'))"
  shows "fst (generate_invoice A company customer email items cur tax logo c)
           = fst (generate_invoice A company customer email items cur tax logo c')
       \<and> reads (snd (generate_invoice A company customer email items cur tax logo c))
           = reads c + 2
       \<and> drawn_strings
           (document (generate_invoice A company customer email items cur tax logo c))
           = [(50, 600, ''Invoice - '' @ company),
              (50, 540, ''Customer: '' @ customer),
              (50, 520, ''Email: '' @ email),
              (350, 600, ''Invoice Date: '' @ strftime_date (readings c (reads c))),
              (350, 580, ''Purchase Time: '' @ strftime_time (readings c (Suc (reads c)))),
              (50, 70, ''Thank you for your business!''),
              (50, 50, ''Terms & Conditions: Payment due within 30 days.'')]"
proof -
  have "document (generate_invoice A company customer email items cur tax logo c)
      = document (generate_invoice A company customer email items cur tax logo c')"
    using assms by (simp add: generate_invoice_document)
  then have "fst (generate_invoice A company customer email items cur tax logo c)
           = fst (generate_invoice A company customer email items cur tax logo c')"
    by (simp add: generate_invoice_Inr)
  then show ?thesis
    by (simp add: generate_invoice_clock generate_invoice_strings)
qed

theorem render_deterministic_given_clock_witness:
  "readings frozen_clock (reads frozen_clock)
     = readings frozen_clock_later (reads frozen_clock_later)
   \<and> readings frozen_clock (Suc (reads frozen_clock))
     = readings frozen_clock_later (Suc (reads frozen_clock_later))
   \<and> fst (generate_invoice (python_floats str_whole) ''Acme'' ''Bob'' ''bob@example.com''
            widget_gadget ''$'' (Num False 18) None frozen_clock)
     = fst (generate_invoice (python_floats str_whole) ''Acme'' ''Bob'' ''bob@example.com''
            widget_gadget ''$'' (Num False 18) None frozen_clock_later)
   \<and> reads (snd (generate_invoice (python_floats str_whole) ''Acme'' ''Bob''
            ''bob@example.com'' widget_gadget ''$'' (Num False 18) None frozen_clock)) = 2"
proof -
  have h1: "readings frozen_clock (reads frozen_clock)
     = readings frozen_clock_later (reads frozen_clock_later)"
    by (simp add: frozen_clock_def frozen_clock_later_def)
  have h2: "readings frozen_clock (Suc (reads frozen_clock))
     = readings frozen_clock_later (Suc (reads frozen_clock_later))"
    by (simp add: frozen_clock_def frozen_clock_later_def)
  have z: "reads frozen_clock = 0" by (simp add: frozen_clock_def)
  note r = render_deterministic_given_clock [OF h1 h2, of "python_floats str_whole" "''Acme''"
      "''Bob''" "''bob@example.com''" widget_gadget "''$''" "Num False 18" None]
  from h1 h2 r [THEN conjunct1] r [THEN conjunct2, THEN conjunct1] z show ?thesis
    by simp
qed

text \<open>
  Claim C8 as the specification states it does not hold: the clock is read twice, not
  once. On a clock that passes midnight between the two reads the page shows the date of
  the old year next to the time of the new one.
\<close>

theorem clock_read_twice_counterexample:
  "reads (snd (generate_invoice (python_floats str_whole) ''Acme'' ''Bob'' ''bob@example.com''
            widget_gadget ''$'' (Num False 18) None midnight_clock))
     \<noteq> Suc (reads midnight_clock)
   \<and> reads (snd (generate_invoice (python_floats str_whole) ''Acme'' ''Bob''
            ''bob@example.com'' widget_gadget ''$'' (Num False 18) None midnight_clock)) = 2
   \<and> (350, 600, ''Invoice Date: 2024-12-31'')
       \<in> set (drawn_strings (document (generate_invoice (python_floats str_whole) ''Acme''
                 ''Bob'' ''bob@example.com'' widget_gadget ''$'' (Num False 18) None
                 midnight_clock)))
   \<and> (350, 580, ''Purchase Time: 00:00:00'')
       \<in> set (drawn_strings (document (generate_invoice (python_floats str_whole) ''Acme''
                 ''Bob'' ''bob@example.com'' widget_gadget ''$'' (Num False 18) None
                 midnight_clock)))"
proof -
  have c: "reads midnight_clock = 0" "readings midnight_clock 0 = last_second"
      "readings midnight_clock (Suc 0) = first_second"
    by (simp_all add: midnight_clock_def)
  show ?thesis
    by (simp add: generate_invoice_clock generate_invoice_strings c strftime_examples)
qed

subsection \<open>Currency and order\<close>

text \<open>
  Claim C9. The currency symbol takes no part in the arithmetic: with everything else
  equal, two currency symbols give the same subtotal, tax amount and grand total and the
  same item rows, which hold the per-line totals. The symbol appears in the header row
  and in the summary rows only.
\<close>

theorem currency_is_a_label:
  "total_amount (build_table A items cur tax) = total_amount (build_table A items cur' tax)
   \<and> tax_amount (build_table A items cur tax) = tax_amount (build_table A items cur' tax)
   \<and> grand_total (build_table A items cur tax) = grand_total (build_table A items cur' tax)
   \<and> item_rows (length items) (data (build_table A items cur tax))
       = item_rows (length items) (data (build_table A items cur' tax))
   \<and> item_rows (length items) (data (build_table A items cur tax)) = map (item_row A) items"
  by (simp add: build_table_total build_table_tax build_table_grand item_rows_data)

lemma sum_total_price_perm:
  "mset xs = mset ys \<Longrightarrow>
     sum_list (map (total_price (exact_rationals sr)) xs)
       = sum_list (map (total_price (exact_rationals sr)) ys)"
  by (metis mset_map sum_mset_sum_list)

text \<open>
  Claim C10. If the items are permuted, the subtotal, the tax amount and the grand total
  stay the same in exact (rational) arithmetic, and the item rows are the rows of the
  permuted items: the same rows, in the new order.
\<close>

theorem totals_permutation_invariant:
  assumes "mset items' = mset items"
  shows "total_amount (build_table (exact_rationals sr) items' cur tax)
           = total_amount (build_table (exact_rationals sr) items cur tax)
       \<and> tax_amount (build_table (exact_rationals sr) items' cur tax)
           = tax_amount (build_table (exact_rationals sr) items cur tax)
       \<and> grand_total (build_table (exact_rationals sr) items' cur tax)
           = grand_total (build_table (exact_rationals sr) items cur tax)
       \<and> item_rows (length items') (data (build_table (exact_rationals sr) items' cur tax))
           = map (item_row (exact_rationals sr)) items'
       \<and> mset (item_rows (length items') (data (build_table (exact_rationals sr) items' cur
             tax)))
           = mset (item_rows (length items) (data (build_table (exact_rationals sr) items cur
               tax)))"
proof -
  have "mset (map (item_row (exact_rationals sr)) items')
      = mset (map (item_row (exact_rationals sr)) items)"
    using assms by (metis mset_map)
  with sum_total_price_perm [OF assms, of sr] show ?thesis
    by (simp add: exact_total exact_tax exact_grand item_rows_data)
qed

theorem totals_permutation_invariant_witness:
  "mset gadget_widget_exact = mset widget_gadget_exact
   \<and> total_amount (build_table (exact_rationals str_whole_rat) gadget_widget_exact ''$'' 18)
       = 250
   \<and> grand_total (build_table (exact_rationals str_whole_rat) gadget_widget_exact ''$'' 18)
       = 295
   \<and> item_rows 2 (data (build_table (exact_rationals str_whole_rat) gadget_widget_exact ''$''
         18))
       = [[''Gadget'', ''1'', ''150.00'', ''150.00''], [''Widget'', ''2'', ''50.00'', ''100.00'']]"
proof -
  have h: "mset gadget_widget_exact = mset widget_gadget_exact"
    by (simp add: gadget_widget_exact_def widget_gadget_exact_def)
  have n: "length gadget_widget_exact = 2" by (simp add: gadget_widget_exact_def)
  have s: "str_int 2 = ''2''" "str_int 1 = ''1''" by (simp_all add: str_eval)
  have m: "map (item_row (exact_rationals str_whole_rat)) gadget_widget_exact
      = [[''Gadget'', ''1'', ''150.00'', ''150.00''], [''Widget'', ''2'', ''50.00'', ''100.00'']]"
    by (simp add: gadget_widget_exact_def exact_rationals_def fmt2_examples s)
  have t: "total_amount (build_table (exact_rationals str_whole_rat) widget_gadget_exact ''$''
      18) = 250"
    unfolding exact_total by (simp add: widget_gadget_exact_def exact_rationals_def)
  have g: "grand_total (build_table (exact_rationals str_whole_rat) widget_gadget_exact ''$''
      18) = 295"
    by (simp add: exact_grand exact_tax t)
  note r = totals_permutation_invariant [OF h, of str_whole_rat "''$''" 18, unfolded n m t g]
  from h r [THEN conjunct1] r [THEN conjunct2, THEN conjunct2, THEN conjunct1]
    r [THEN conjunct2, THEN conjunct2, THEN conjunct2, THEN conjunct1]
  show ?thesis by simp
qed

end
